theory Spec2Isabelle
  imports Main
begin

section \<open>Bit sets, values and typed arrays\<close>

text \<open>
  \<^verbatim>\<open>ComponentMask\<close> is a \<^verbatim>\<open>BitSet\<close> of the npm library \<^verbatim>\<open>bitset\<close>: a set of bit
  positions. The four operations \<^verbatim>\<open>Entity.ts\<close> calls are union, difference, intersection
  and the emptiness test.
\<close>

type_synonym ComponentMask = "nat set"

definition BitSet_new :: ComponentMask where
  "BitSet_new = {}"

definition bs_or :: "ComponentMask \<Rightarrow> ComponentMask \<Rightarrow> ComponentMask" where
  "bs_or a b = a \<union> b"

definition bs_andNot :: "ComponentMask \<Rightarrow> ComponentMask \<Rightarrow> ComponentMask" where
  "bs_andNot a b = a - b"

definition bs_and :: "ComponentMask \<Rightarrow> ComponentMask \<Rightarrow> ComponentMask" where
  "bs_and a b = a \<inter> b"

definition bs_isEmpty :: "ComponentMask \<Rightarrow> bool" where
  "bs_isEmpty a = (a = {})"

text \<open>
  A JavaScript typed array is a window of fixed length on an array buffer. Two typed
  array objects are the same instance when their \<open>oid\<close> agree; \<open>buffer\<close> names the array
  buffer, \<open>offset\<close> and \<open>ta_length\<close> are counted in elements. \<open>coerce\<close> is the conversion
  a store applies to the value written (the element type's conversion); which element
  types the repository uses is fixed in \<^verbatim>\<open>Types.ts\<close>, which is not among the sources, so
  it is a parameter of the array. Numbers are modelled as integers.
\<close>

record TypedArray =
  oid :: nat
  buffer :: nat
  offset :: nat
  ta_length :: nat
  coerce :: "int \<Rightarrow> int"

text \<open>\<^verbatim>\<open>ta.subarray(begin, end)\<close>: a new typed array object on the same buffer; both
  bounds are clamped to the length, and an empty range gives length 0.\<close>

definition subarray :: "TypedArray \<Rightarrow> nat \<Rightarrow> nat \<Rightarrow> nat \<Rightarrow> TypedArray" where
  "subarray ta begin end new_oid =
     (let b = min begin (ta_length ta); e = min end (ta_length ta)
      in ta\<lparr>oid := new_oid, offset := offset ta + b, ta_length := e - b\<rparr>)"

text \<open>
  \<^verbatim>\<open>componentClass.data[key]\<close> is indexed as it is by \<^verbatim>\<open>getValue\<close> and \<^verbatim>\<open>setValue\<close>, with a
  value of any type, and cast to a typed array by \<^verbatim>\<open>getVectorView\<close> only: what a field
  holds is a typed array or a plain JavaScript array. A plain array is named by its
  identity; it stores what it is given, at any index.
\<close>

datatype FieldData = TypedData TypedArray | ArrayData nat

section \<open>Component classes and the world around an entity\<close>

type_synonym key = string
type_synonym comp_id = nat
type_synonym DataType = string
type_synonym init_data = "(key \<times> int list) list"

record FieldSchema =
  ftype :: DataType
  default :: "int list"

text \<open>A \<^verbatim>\<open>ComponentConstructor\<close>: the static members \<^verbatim>\<open>bitmask\<close> (\<^verbatim>\<open>null\<close> until the type is
  registered), \<^verbatim>\<open>schema\<close> and \<^verbatim>\<open>data\<close> that \<^verbatim>\<open>Entity.ts\<close> reads.\<close>

record ComponentConstructor =
  cls_bitmask :: "ComponentMask option"
  schema :: "(key \<times> FieldSchema) list"
  data :: "key \<rightharpoonup> FieldData"

record Query =
  required :: ComponentMask
  excluded :: ComponentMask
  matches :: "nat set"

text \<open>The calls an entity makes on its three collaborators, each with the index, bitmask
  and active flag the callee finds on the handle at the moment of the call.\<close>

datatype event =
    is_release: ReleaseEntityInstance nat ComponentMask bool
  | is_attach: AttachComponentToEntity nat comp_id init_data
  | is_update: UpdateEntity nat ComponentMask bool

text \<open>
  Everything outside the handle: the component classes (by identity), the table
  \<^verbatim>\<open>TypedArrayMap\<close> of \<^verbatim>\<open>Types.ts\<close> (only the \<^verbatim>\<open>length\<close> of an entry is read; the table is not
  among the sources, so it is a parameter), the contents of the array buffers and of
  the plain arrays (an index with no element reads \<^verbatim>\<open>undefined\<close>), the buffers replaced by
  a growth, the allocation counters, the registered queries, the
  indices released to the pool, and the log of collaborator calls in program order.
\<close>

record world =
  classes :: "comp_id \<Rightarrow> ComponentConstructor"
  TypedArrayMap :: "DataType \<rightharpoonup> nat"
  buffers :: "nat \<Rightarrow> nat \<Rightarrow> int"
  arrays :: "nat \<Rightarrow> nat \<rightharpoonup> int"
  retired :: "nat set"
  next_buffer :: nat
  next_oid :: nat
  queries :: "Query list"
  free_indices :: "nat list"
  calls :: "event list"

text \<open>Element access on a typed array: a read out of range gives \<^verbatim>\<open>undefined\<close> (\<open>None\<close>),
  a write out of range is ignored, a write in range stores the coerced value.\<close>

definition ta_get :: "TypedArray \<Rightarrow> nat \<Rightarrow> world \<Rightarrow> int option" where
  "ta_get ta i w =
     (if i < ta_length ta then Some (buffers w (buffer ta) (offset ta + i)) else None)"

definition ta_set :: "TypedArray \<Rightarrow> nat \<Rightarrow> int \<Rightarrow> world \<Rightarrow> world" where
  "ta_set ta i v w =
     (if i < ta_length ta
      then w\<lparr>buffers := (buffers w)(buffer ta := (buffers w (buffer ta))(offset ta + i := coerce ta v))\<rparr>
      else w)"

text \<open>Element access on a plain array: a read where nothing was stored gives
  \<^verbatim>\<open>undefined\<close>, a write stores the value at the index, beyond the length too.\<close>

definition array_get :: "nat \<Rightarrow> nat \<Rightarrow> world \<Rightarrow> int option" where
  "array_get a i w = arrays w a i"

definition array_set :: "nat \<Rightarrow> nat \<Rightarrow> int \<Rightarrow> world \<Rightarrow> world" where
  "array_set a i v w = w\<lparr>arrays := (arrays w)(a := (arrays w a)(i \<mapsto> v))\<rparr>"

section \<open>The entity handle\<close>

datatype error = Error string | TypeError

definition MODIFY_DESTROYED_ENTITY :: string where
  "MODIFY_DESTROYED_ENTITY = ''Cannot modify a destroyed entity''"

definition ACCESS_DESTROYED_ENTITY :: string where
  "ACCESS_DESTROYED_ENTITY = ''Cannot access a destroyed entity''"

record Entity =
  bitmask :: ComponentMask
  active :: bool
  vectorViews :: "comp_id \<rightharpoonup> (key \<rightharpoonup> TypedArray)"
  index :: nat

text \<open>The constructor: the field initialisers of the class and the \<open>index\<close> parameter.\<close>

definition Entity_new :: "nat \<Rightarrow> Entity" where
  "Entity_new idx =
     \<lparr>bitmask = BitSet_new, active = True, vectorViews = Map.empty, index = idx\<rparr>"

subsection \<open>The collaborators\<close>

text \<open>Modelled from the spec: \<^verbatim>\<open>EntityManager.releaseEntityInstance\<close> is not among the
  sources. The pool reclaims the index of the handle (a free list, section 4.4).\<close>

definition releaseEntityInstance :: "Entity \<Rightarrow> world \<Rightarrow> world" where
  "releaseEntityInstance e w =
     w\<lparr>free_indices := index e # free_indices w,
       calls := calls w @ [ReleaseEntityInstance (index e) (bitmask e) (active e)]\<rparr>"

text \<open>Modelled from the spec: \<^verbatim>\<open>QueryManager.updateEntity\<close> is not among the sources. It
  re-evaluates the entity against every registered query and adds its index to, or
  removes it from, the query's matches (section 4.3); an entity matches a query when it
  is active, holds every required bit and no excluded bit (section 3).\<close>

definition query_matches :: "Query \<Rightarrow> Entity \<Rightarrow> bool" where
  "query_matches q e =
     (active e \<and> required q \<subseteq> bitmask e \<and> bitmask e \<inter> excluded q = {})"

text \<open>Modelled from the spec: the membership update of one query (section 4.3).\<close>

definition update_query :: "Entity \<Rightarrow> Query \<Rightarrow> Query" where
  "update_query e q =
     (if query_matches q e then q\<lparr>matches := insert (index e) (matches q)\<rparr>
      else q\<lparr>matches := matches q - {index e}\<rparr>)"

text \<open>Modelled from the spec: \<^verbatim>\<open>QueryManager.updateEntity\<close>, over every registered query.\<close>

definition updateEntity :: "Entity \<Rightarrow> world \<Rightarrow> world" where
  "updateEntity e w =
     w\<lparr>queries := map (update_query e) (queries w),
       calls := calls w @ [UpdateEntity (index e) (bitmask e) (active e)]\<rparr>"

text \<open>Modelled from the spec: \<^verbatim>\<open>ComponentManager.attachComponentToEntity\<close> is not among the
  sources. For each declared field it resolves the value as \<^verbatim>\<open>initialData[field] ?? default\<close>
  and writes it at offset \<open>index * length\<close>, growing the buffer first when the slot lies
  beyond it (section 4.2). The four definitions that follow make it up.\<close>

text \<open>Modelled from the spec: a growth copies the old contents into a fresh buffer,
  replaces the class's typed array by one on the fresh buffer, and retires the old
  buffer, so that views on it are known to be out of date (section 4.2).\<close>

definition grow :: "comp_id \<Rightarrow> key \<Rightarrow> TypedArray \<Rightarrow> nat \<Rightarrow> world \<Rightarrow> world" where
  "grow c k ta n w =
     (let nb = next_buffer w;
          ta' = ta\<lparr>oid := next_oid w, buffer := nb, offset := 0, ta_length := n\<rparr>;
          cls = classes w c
      in w\<lparr>classes := (classes w)(c := cls\<lparr>data := (data cls)(k \<mapsto> TypedData ta')\<rparr>),
           buffers := (buffers w)(nb := (\<lambda>i. if i < ta_length ta
                                              then buffers w (buffer ta) (offset ta + i) else 0)),
           retired := insert (buffer ta) (retired w),
           next_buffer := nb + 1,
           next_oid := next_oid w + 1\<rparr>)"

text \<open>Modelled from the spec: the elements of a value, written one after the other.\<close>

fun write_values :: "TypedArray \<Rightarrow> nat \<Rightarrow> int list \<Rightarrow> world \<Rightarrow> world" where
  "write_values ta i [] w = w"
| "write_values ta i (v # vs) w = write_values ta (i + 1) vs (ta_set ta i v w)"

text \<open>Modelled from the spec: the same for a field held in a plain array.\<close>

fun write_array_values :: "nat \<Rightarrow> nat \<Rightarrow> int list \<Rightarrow> world \<Rightarrow> world" where
  "write_array_values a i [] w = w"
| "write_array_values a i (v # vs) w = write_array_values a (i + 1) vs (array_set a i v w)"

text \<open>Modelled from the spec: one declared field. The growth policy is not specified;
  the model grows a typed array to the least length that holds the slot.\<close>

definition attach_field :: "nat \<Rightarrow> comp_id \<Rightarrow> init_data \<Rightarrow> key \<times> FieldSchema \<Rightarrow> world \<Rightarrow> world" where
  "attach_field idx c initialData kf w =
     (let vals = (case map_of initialData (fst kf) of Some vs \<Rightarrow> vs | None \<Rightarrow> default (snd kf))
      in (case (data (classes w c) (fst kf), TypedArrayMap w (ftype (snd kf))) of
            (Some (TypedData ta), Some n) \<Rightarrow>
              (let w1 = (if (idx + 1) * n \<le> ta_length ta then w
                         else grow c (fst kf) ta ((idx + 1) * n) w)
               in (case data (classes w1 c) (fst kf) of
                     Some (TypedData ta1) \<Rightarrow> write_values ta1 (idx * n) (take n vals) w1
                   | _ \<Rightarrow> w1))
          | (Some (ArrayData a), Some n) \<Rightarrow> write_array_values a (idx * n) (take n vals) w
          | _ \<Rightarrow> w))"

text \<open>Modelled from the spec: \<^verbatim>\<open>attachComponentToEntity\<close>, over the declared fields in
  order.\<close>

definition attachComponentToEntity :: "nat \<Rightarrow> comp_id \<Rightarrow> init_data \<Rightarrow> world \<Rightarrow> world" where
  "attachComponentToEntity idx c initialData w =
     (let w1 = w\<lparr>calls := calls w @ [AttachComponentToEntity idx c initialData]\<rparr>
      in fold (attach_field idx c initialData) (schema (classes w c)) w1)"

subsection \<open>The methods of \<^verbatim>\<open>Entity\<close>\<close>

text \<open>Every method takes the handle (\<^verbatim>\<open>this\<close>) and the world and returns its result, an
  error (\<open>Inl\<close>) when it throws, together with the handle and the world as it leaves
  them, so that a mutation made before a throw would show. \<^verbatim>\<open>addComponent\<close> returns
  \<^verbatim>\<open>this\<close>: the handle in the result.\<close>

definition addComponent ::
  "comp_id \<Rightarrow> init_data \<Rightarrow> Entity \<Rightarrow> world \<Rightarrow> (error + unit) \<times> Entity \<times> world" where
  "addComponent componentClass initialData this w =
     (if \<not> active this then (Inl (Error MODIFY_DESTROYED_ENTITY), this, w)
      else (case cls_bitmask (classes w componentClass) of
              Some m \<Rightarrow>
                (let this1 = this\<lparr>bitmask := bs_or (bitmask this) m\<rparr>;
                     w1 = attachComponentToEntity (index this1) componentClass initialData w;
                     w2 = updateEntity this1 w1
                 in (Inr (), this1, w2))
            | None \<Rightarrow> (Inl (Error ''Component type not registered''), this, w)))"

definition removeComponent ::
  "comp_id \<Rightarrow> Entity \<Rightarrow> world \<Rightarrow> (error + unit) \<times> Entity \<times> world" where
  "removeComponent componentClass this w =
     (if \<not> active this then (Inl (Error MODIFY_DESTROYED_ENTITY), this, w)
      else (case cls_bitmask (classes w componentClass) of
              Some m \<Rightarrow>
                (let this1 = this\<lparr>bitmask := bs_andNot (bitmask this) m\<rparr>;
                     w1 = updateEntity this1 w
                 in (Inr (), this1, w1))
            | None \<Rightarrow> (Inl (Error ''Component not found''), this, w)))"

definition hasComponent :: "comp_id \<Rightarrow> Entity \<Rightarrow> world \<Rightarrow> error + bool" where
  "hasComponent componentClass this w =
     (case cls_bitmask (classes w componentClass) of
        Some componentBitmask \<Rightarrow> Inr (\<not> bs_isEmpty (bs_and (bitmask this) componentBitmask))
      | None \<Rightarrow> Inl (Error ''Component type not registered''))"

text \<open>\<^verbatim>\<open>getValue\<close> returns \<^verbatim>\<open>undefined\<close> (\<open>None\<close>) for an undeclared key or where the
  field holds no element; \<^verbatim>\<open>setValue\<close> throws a \<^verbatim>\<open>TypeError\<close> when \<^verbatim>\<open>data[key]\<close> is
  \<^verbatim>\<open>undefined\<close>. Both index what the field holds, typed array or plain array.\<close>

definition getValue :: "comp_id \<Rightarrow> key \<Rightarrow> Entity \<Rightarrow> world \<Rightarrow> int option" where
  "getValue componentClass k this w =
     (case data (classes w componentClass) k of
        None \<Rightarrow> None
      | Some (TypedData componentData) \<Rightarrow> ta_get componentData (index this) w
      | Some (ArrayData componentData) \<Rightarrow> array_get componentData (index this) w)"

definition setValue ::
  "comp_id \<Rightarrow> key \<Rightarrow> int \<Rightarrow> Entity \<Rightarrow> world \<Rightarrow> (error + unit) \<times> Entity \<times> world" where
  "setValue componentClass k v this w =
     (case data (classes w componentClass) k of
        None \<Rightarrow> (Inl TypeError, this, w)
      | Some (TypedData componentData) \<Rightarrow>
          (Inr (), this, ta_set componentData (index this) v w)
      | Some (ArrayData componentData) \<Rightarrow>
          (Inr (), this, array_set componentData (index this) v w))"

text \<open>\<^verbatim>\<open>this.vectorViews.get(componentClass)?.get(key)\<close>, and \<^verbatim>\<open>getVectorView\<close>: a cached
  view is returned as it is; otherwise the reads of \<^verbatim>\<open>schema[key].type\<close>, of the
  \<^verbatim>\<open>TypedArrayMap\<close> entry and of \<^verbatim>\<open>data[key]\<close> throw a \<^verbatim>\<open>TypeError\<close> when the object read
  is \<^verbatim>\<open>undefined\<close>, as does the call of \<^verbatim>\<open>subarray\<close> on a plain array, which has none;
  the new view is cached under the class and the key.\<close>

definition cachedVectorView :: "comp_id \<Rightarrow> key \<Rightarrow> Entity \<Rightarrow> TypedArray option" where
  "cachedVectorView componentClass k this =
     (case vectorViews this componentClass of None \<Rightarrow> None | Some m \<Rightarrow> m k)"

definition getVectorView ::
  "comp_id \<Rightarrow> key \<Rightarrow> Entity \<Rightarrow> world \<Rightarrow> (error + TypedArray) \<times> Entity \<times> world" where
  "getVectorView componentClass k this w =
     (case cachedVectorView componentClass k this of
        Some cached \<Rightarrow> (Inr cached, this, w)
      | None \<Rightarrow>
          (case map_of (schema (classes w componentClass)) k of
             None \<Rightarrow> (Inl TypeError, this, w)
           | Some fs \<Rightarrow>
               (case TypedArrayMap w (ftype fs) of
                  None \<Rightarrow> (Inl TypeError, this, w)
                | Some len \<Rightarrow>
                    (case data (classes w componentClass) k of
                       None \<Rightarrow> (Inl TypeError, this, w)
                     | Some (ArrayData componentData) \<Rightarrow> (Inl TypeError, this, w)
                     | Some (TypedData componentData) \<Rightarrow>
                         (let off = index this * len;
                              vectorView = subarray componentData off (off + len) (next_oid w);
                              w1 = w\<lparr>next_oid := next_oid w + 1\<rparr>;
                              inner = (case vectorViews this componentClass of
                                         None \<Rightarrow> Map.empty | Some m \<Rightarrow> m);
                              this1 = this\<lparr>vectorViews :=
                                        (vectorViews this)(componentClass \<mapsto> inner(k \<mapsto> vectorView))\<rparr>
                          in (Inr vectorView, this1, w1))))))"

definition destroy :: "Entity \<Rightarrow> world \<Rightarrow> (error + unit) \<times> Entity \<times> world" where
  "destroy this w =
     (if \<not> active this then (Inl (Error MODIFY_DESTROYED_ENTITY), this, w)
      else (let w1 = releaseEntityInstance this w;
                this1 = this\<lparr>active := False\<rparr>;
                this2 = this1\<lparr>bitmask := BitSet_new\<rparr>;
                w2 = updateEntity this2 w1
            in (Inr (), this2, w2)))"

section \<open>Sequences of client calls\<close>

text \<open>The three mutating calls of the handle, and a client that issues a list of them on
  one handle, going on after a call that throws (as a client that catches would).\<close>

datatype call = AddComponent comp_id init_data | RemoveComponent comp_id | Destroy

fun perform :: "call \<Rightarrow> Entity \<Rightarrow> world \<Rightarrow> (error + unit) \<times> Entity \<times> world" where
  "perform (AddComponent c d) this w = addComponent c d this w"
| "perform (RemoveComponent c) this w = removeComponent c this w"
| "perform Destroy this w = destroy this w"

fun run :: "call list \<Rightarrow> Entity \<Rightarrow> world \<Rightarrow> (error + unit) list \<times> Entity \<times> world" where
  "run [] this w = ([], this, w)"
| "run (c # cs) this w =
     (case perform c this w of
        (r, this1, w1) \<Rightarrow> (case run cs this1 w1 of (rs, this2, w2) \<Rightarrow> (r # rs, this2, w2)))"

text \<open>A mutating call has its preconditions when the type it names, if it names one,
  is registered (the handle being active is the other precondition).\<close>

definition target_registered :: "call \<Rightarrow> world \<Rightarrow> bool" where
  "target_registered c w =
     (case c of
        AddComponent cc d \<Rightarrow> cls_bitmask (classes w cc) \<noteq> None
      | RemoveComponent cc \<Rightarrow> cls_bitmask (classes w cc) \<noteq> None
      | Destroy \<Rightarrow> True)"

text \<open>The seven methods of the handle, the handle a call leaves, and the handle after a
  history of its own calls. Each call of a history comes with the world it is made in:
  between two calls of the handle the rest of the program may have done anything to the
  store.\<close>

datatype own_call =
    CallAdd comp_id init_data
  | CallRemove comp_id
  | CallHas comp_id
  | CallGet comp_id key
  | CallSet comp_id key int
  | CallView comp_id key
  | CallDestroy

fun handle_after :: "own_call \<Rightarrow> Entity \<Rightarrow> world \<Rightarrow> Entity" where
  "handle_after (CallAdd c d) this w = fst (snd (addComponent c d this w))"
| "handle_after (CallRemove c) this w = fst (snd (removeComponent c this w))"
| "handle_after (CallHas c) this w = this"
| "handle_after (CallGet c k) this w = this"
| "handle_after (CallSet c k v) this w = fst (snd (setValue c k v this w))"
| "handle_after (CallView c k) this w = fst (snd (getVectorView c k this w))"
| "handle_after CallDestroy this w = fst (snd (destroy this w))"

fun later :: "(own_call \<times> world) list \<Rightarrow> Entity \<Rightarrow> Entity" where
  "later [] this = this"
| "later (mw # hs) this = later hs (handle_after (fst mw) this (snd mw))"

text \<open>The collaborator calls logged between two worlds.\<close>

definition new_calls :: "world \<Rightarrow> world \<Rightarrow> event list" where
  "new_calls w w' = drop (length (calls w)) (calls w')"

text \<open>\<open>all_before P Q evs\<close>: in the log \<open>evs\<close>, no \<open>P\<close> event comes after a \<open>Q\<close> event.\<close>

fun all_before :: "(event \<Rightarrow> bool) \<Rightarrow> (event \<Rightarrow> bool) \<Rightarrow> event list \<Rightarrow> bool" where
  "all_before P Q [] = True"
| "all_before P Q (x # xs) =
     ((if Q x then list_all (\<lambda>y. \<not> P y) xs else True) \<and> all_before P Q xs)"

section \<open>A small world\<close>

text \<open>Two registered component types, \<open>Position {x, y}\<close> on bit 1 and \<open>Velocity {v}\<close> (a
  vector of two elements) on bit 2, each buffer with room for the entities 0 and 1; a
  third type that was never registered; one query requiring both registered types.\<close>

definition plain :: "int \<Rightarrow> int" where
  "plain v = v"

definition Position :: ComponentConstructor where
  "Position =
     \<lparr>cls_bitmask = Some {1},
      schema = [(''x'', \<lparr>ftype = ''Float64'', default = [0]\<rparr>),
                (''y'', \<lparr>ftype = ''Float64'', default = [0]\<rparr>)],
      data = map_of
        [(''x'', TypedData \<lparr>oid = 0, buffer = 0, offset = 0, ta_length = 2, coerce = plain\<rparr>),
         (''y'', TypedData \<lparr>oid = 1, buffer = 1, offset = 0, ta_length = 2, coerce = plain\<rparr>)]\<rparr>"

definition Velocity :: ComponentConstructor where
  "Velocity =
     \<lparr>cls_bitmask = Some {2},
      schema = [(''v'', \<lparr>ftype = ''Vec2'', default = [0, 0]\<rparr>)],
      data = map_of
        [(''v'', TypedData \<lparr>oid = 2, buffer = 2, offset = 0, ta_length = 4, coerce = plain\<rparr>)]\<rparr>"

definition Unregistered :: ComponentConstructor where
  "Unregistered = \<lparr>cls_bitmask = None, schema = [], data = Map.empty\<rparr>"

definition world0 :: world where
  "world0 =
     \<lparr>classes = (\<lambda>c. if c = 0 then Position else if c = 1 then Velocity else Unregistered),
      TypedArrayMap = map_of [(''Float64'', 1), (''Vec2'', 2)],
      buffers = (\<lambda>b i. 0),
      arrays = (\<lambda>a. Map.empty),
      retired = {},
      next_buffer = 3,
      next_oid = 3,
      queries = [\<lparr>required = {1, 2}, excluded = {}, matches = {}\<rparr>],
      free_indices = [],
      calls = []\<rparr>"

definition scenario_add_add_remove :: "(error + unit) list \<times> Entity \<times> world" where
  "scenario_add_add_remove =
     run [AddComponent 0 [], AddComponent 1 [], RemoveComponent 1] (Entity_new 0) world0"

text \<open>Adding a component type and removing it again, on one handle.\<close>

definition add_then_remove ::
  "comp_id \<Rightarrow> init_data \<Rightarrow> Entity \<Rightarrow> world \<Rightarrow> (error + unit) \<times> (error + unit) \<times> Entity \<times> world" where
  "add_then_remove c d this w =
     (case addComponent c d this w of
        (r1, this1, w1) \<Rightarrow>
          (case removeComponent c this1 w1 of (r2, this2, w2) \<Rightarrow> (r1, r2, this2, w2)))"

text \<open>Handles and calls in the small world: a fresh handle destroyed; a fresh handle
  given \<open>Position {x: 1, y: 2}\<close>, then destroyed, or given \<open>Position\<close> a second time and
  stripped of it, or given \<open>Velocity\<close> and stripped of it, or stripped of \<open>Position\<close>; a
  write of 7 to \<open>Position.x\<close> through a handle whose index lies beyond the buffer, and
  through one whose index lies within.\<close>

definition destroyed0 :: "(error + unit) \<times> Entity \<times> world" where
  "destroyed0 = destroy (Entity_new 0) world0"

definition added0 :: "(error + unit) \<times> Entity \<times> world" where
  "added0 = addComponent 0 [(''x'', [1]), (''y'', [2])] (Entity_new 0) world0"

definition destroyed_after_add :: "(error + unit) \<times> Entity \<times> world" where
  "destroyed_after_add = destroy (fst (snd added0)) (snd (snd added0))"

definition readded :: "(error + unit) \<times> (error + unit) \<times> Entity \<times> world" where
  "readded = add_then_remove 0 [] (fst (snd added0)) (snd (snd added0))"

definition added_other :: "(error + unit) \<times> (error + unit) \<times> Entity \<times> world" where
  "added_other = add_then_remove 1 [] (fst (snd added0)) (snd (snd added0))"

definition removed0 :: "(error + unit) \<times> Entity \<times> world" where
  "removed0 = removeComponent 0 (fst (snd added0)) (snd (snd added0))"

definition far_set :: "(error + unit) \<times> Entity \<times> world" where
  "far_set = setValue 0 ''x'' 7 (Entity_new 2) world0"

definition near_set :: "(error + unit) \<times> Entity \<times> world" where
  "near_set = setValue 0 ''x'' 7 (Entity_new 1) world0"

text \<open>The small world with two more registered types: \<open>Health {hp}\<close> on bit 3, held in a
  typed array of signed 8-bit elements (a store keeps the value modulo 256, in the range
  from -128 to 127), and \<open>Label {tag}\<close> on bit 4, held in a plain array. 300 is written
  to \<open>Health.hp\<close> through the handle of index 0, and 7 to \<open>Label.tag\<close> through a handle
  of index 2.\<close>

definition to_int8 :: "int \<Rightarrow> int" where
  "to_int8 v = (v + 128) mod 256 - 128"

definition Health :: ComponentConstructor where
  "Health =
     \<lparr>cls_bitmask = Some {3},
      schema = [(''hp'', \<lparr>ftype = ''Int8'', default = [0]\<rparr>)],
      data = map_of
        [(''hp'', TypedData \<lparr>oid = 3, buffer = 3, offset = 0, ta_length = 2, coerce = to_int8\<rparr>)]\<rparr>"

definition Label :: ComponentConstructor where
  "Label =
     \<lparr>cls_bitmask = Some {4},
      schema = [(''tag'', \<lparr>ftype = ''Object'', default = [0]\<rparr>)],
      data = map_of [(''tag'', ArrayData 0)]\<rparr>"

definition world1 :: world where
  "world1 =
     world0\<lparr>classes := (classes world0)(3 := Health, 4 := Label),
            TypedArrayMap := map_of [(''Float64'', 1), (''Vec2'', 2), (''Int8'', 1), (''Object'', 1)],
            next_buffer := 4,
            next_oid := 4\<rparr>"

definition wrapped_set :: "(error + unit) \<times> Entity \<times> world" where
  "wrapped_set = setValue 3 ''hp'' 300 (Entity_new 0) world1"

definition array_far_set :: "(error + unit) \<times> Entity \<times> world" where
  "array_far_set = setValue 4 ''tag'' 7 (Entity_new 2) world1"

text \<open>A vector view and a growth: the handle of index 0 takes a view of \<open>Velocity.v\<close>;
  a handle of index 2, beyond the buffer, is given \<open>Velocity\<close>, which makes the store
  grow the buffer; the first handle asks for the view again, and writes 5 to its slot
  through \<open>setValue\<close>. \<open>first_view\<close> is the view the first call creates.\<close>

definition view_first :: "(error + TypedArray) \<times> Entity \<times> world" where
  "view_first = getVectorView 1 ''v'' (Entity_new 0) world0"

definition grown :: "(error + unit) \<times> Entity \<times> world" where
  "grown = addComponent 1 [(''v'', [7, 8])] (Entity_new 2) (snd (snd view_first))"

definition view_again :: "(error + TypedArray) \<times> Entity \<times> world" where
  "view_again = getVectorView 1 ''v'' (fst (snd view_first)) (snd (snd grown))"

definition written_after_growth :: "(error + unit) \<times> Entity \<times> world" where
  "written_after_growth = setValue 1 ''v'' 5 (fst (snd view_first)) (snd (snd grown))"

definition first_view :: TypedArray where
  "first_view = \<lparr>oid = 3, buffer = 2, offset = 0, ta_length = 2, coerce = plain\<rparr>"

text \<open>Calls the first handle makes after it took its view: a view of another field, an
  \<open>addComponent\<close> of \<open>Velocity\<close> after the growth, a write, a removal and its destruction.\<close>

definition own_calls :: "(own_call \<times> world) list" where
  "own_calls =
     [(CallView 0 ''x'', snd (snd view_first)),
      (CallAdd 1 [(''v'', [1, 2])], snd (snd grown)),
      (CallSet 1 ''v'' 5, snd (snd grown)),
      (CallRemove 1, snd (snd grown)),
      (CallDestroy, snd (snd grown))]"

text \<open>A write through the destroyed handle of index 0.\<close>

definition written_by_destroyed :: "(error + unit) \<times> Entity \<times> world" where
  "written_by_destroyed =
     setValue 0 ''x'' 9 (fst (snd destroyed_after_add)) (snd (snd destroyed_after_add))"

section \<open>What the collaborators leave alone\<close>

lemma ta_set_frame [simp]:
  "classes (ta_set ta i v w) = classes w"
  "TypedArrayMap (ta_set ta i v w) = TypedArrayMap w"
  "queries (ta_set ta i v w) = queries w"
  "free_indices (ta_set ta i v w) = free_indices w"
  "calls (ta_set ta i v w) = calls w"
  "retired (ta_set ta i v w) = retired w"
  "next_oid (ta_set ta i v w) = next_oid w"
  "next_buffer (ta_set ta i v w) = next_buffer w"
  by (simp_all add: ta_set_def)

lemma array_set_frame [simp]:
  "classes (array_set a i v w) = classes w"
  "TypedArrayMap (array_set a i v w) = TypedArrayMap w"
  "queries (array_set a i v w) = queries w"
  "free_indices (array_set a i v w) = free_indices w"
  "calls (array_set a i v w) = calls w"
  "buffers (array_set a i v w) = buffers w"
  by (simp_all add: array_set_def)

lemma write_array_values_frame [simp]:
  "classes (write_array_values a i vs w) = classes w"
  "TypedArrayMap (write_array_values a i vs w) = TypedArrayMap w"
  "queries (write_array_values a i vs w) = queries w"
  "free_indices (write_array_values a i vs w) = free_indices w"
  "calls (write_array_values a i vs w) = calls w"
  by (induction vs arbitrary: i w; simp)+

lemma write_values_frame [simp]:
  "classes (write_values ta i vs w) = classes w"
  "TypedArrayMap (write_values ta i vs w) = TypedArrayMap w"
  "queries (write_values ta i vs w) = queries w"
  "free_indices (write_values ta i vs w) = free_indices w"
  "calls (write_values ta i vs w) = calls w"
  by (induction vs arbitrary: i w; simp)+

lemma grow_frame [simp]:
  "cls_bitmask (classes (grow c k ta n w) c') = cls_bitmask (classes w c')"
  "schema (classes (grow c k ta n w) c') = schema (classes w c')"
  "TypedArrayMap (grow c k ta n w) = TypedArrayMap w"
  "queries (grow c k ta n w) = queries w"
  "free_indices (grow c k ta n w) = free_indices w"
  "calls (grow c k ta n w) = calls w"
  by (simp_all add: grow_def Let_def)

lemma attach_field_frame [simp]:
  "cls_bitmask (classes (attach_field idx c d kf w) c') = cls_bitmask (classes w c')"
  "schema (classes (attach_field idx c d kf w) c') = schema (classes w c')"
  "TypedArrayMap (attach_field idx c d kf w) = TypedArrayMap w"
  "queries (attach_field idx c d kf w) = queries w"
  "free_indices (attach_field idx c d kf w) = free_indices w"
  "calls (attach_field idx c d kf w) = calls w"
  by (simp_all add: attach_field_def Let_def split: option.splits FieldData.splits)

lemma fold_attach_field_frame [simp]:
  "cls_bitmask (classes (fold (attach_field idx c d) fs w) c') = cls_bitmask (classes w c')"
  "queries (fold (attach_field idx c d) fs w) = queries w"
  "free_indices (fold (attach_field idx c d) fs w) = free_indices w"
  "calls (fold (attach_field idx c d) fs w) = calls w"
  by (induction fs arbitrary: w; simp)+

lemma attachComponentToEntity_frame [simp]:
  "cls_bitmask (classes (attachComponentToEntity idx c d w) c') = cls_bitmask (classes w c')"
  "queries (attachComponentToEntity idx c d w) = queries w"
  "free_indices (attachComponentToEntity idx c d w) = free_indices w"
  "calls (attachComponentToEntity idx c d w) = calls w @ [AttachComponentToEntity idx c d]"
  by (simp_all add: attachComponentToEntity_def Let_def)

lemma updateEntity_frame [simp]:
  "classes (updateEntity e w) = classes w"
  "TypedArrayMap (updateEntity e w) = TypedArrayMap w"
  "buffers (updateEntity e w) = buffers w"
  "arrays (updateEntity e w) = arrays w"
  "retired (updateEntity e w) = retired w"
  "next_buffer (updateEntity e w) = next_buffer w"
  "next_oid (updateEntity e w) = next_oid w"
  "free_indices (updateEntity e w) = free_indices w"
  "queries (updateEntity e w) = map (update_query e) (queries w)"
  "calls (updateEntity e w) = calls w @ [UpdateEntity (index e) (bitmask e) (active e)]"
  by (simp_all add: updateEntity_def)

lemma releaseEntityInstance_frame [simp]:
  "classes (releaseEntityInstance e w) = classes w"
  "TypedArrayMap (releaseEntityInstance e w) = TypedArrayMap w"
  "buffers (releaseEntityInstance e w) = buffers w"
  "arrays (releaseEntityInstance e w) = arrays w"
  "retired (releaseEntityInstance e w) = retired w"
  "next_buffer (releaseEntityInstance e w) = next_buffer w"
  "next_oid (releaseEntityInstance e w) = next_oid w"
  "queries (releaseEntityInstance e w) = queries w"
  "free_indices (releaseEntityInstance e w) = index e # free_indices w"
  "calls (releaseEntityInstance e w) = calls w @ [ReleaseEntityInstance (index e) (bitmask e) (active e)]"
  by (simp_all add: releaseEntityInstance_def)

lemma perform_registration:
  "cls_bitmask (classes (snd (snd (perform c e w))) c') = cls_bitmask (classes w c')"
  by (cases c) (simp_all add: addComponent_def removeComponent_def destroy_def Let_def split: option.splits)

lemmas world0_eval = world0_def Position_def Velocity_def Unregistered_def Entity_new_def
  BitSet_new_def bs_or_def bs_andNot_def bs_and_def bs_isEmpty_def MODIFY_DESTROYED_ENTITY_def
  addComponent_def removeComponent_def destroy_def hasComponent_def getValue_def setValue_def
  getVectorView_def cachedVectorView_def subarray_def
  attachComponentToEntity_def attach_field_def grow_def ta_set_def ta_get_def
  array_set_def array_get_def
  updateEntity_def update_query_def query_matches_def releaseEntityInstance_def Let_def
  plain_def

section \<open>Membership test\<close>

lemma scenario_add_add_remove_bitmask: "bitmask (fst (snd scenario_add_add_remove)) = {1}"
  by (simp add: scenario_add_add_remove_def world0_eval)

lemma scenario_add_add_remove_classes:
  "classes (snd (snd scenario_add_add_remove)) = classes world0"
  by (simp add: scenario_add_add_remove_def world0_eval)

text \<open>
  Claim C7. After any sequence of add, remove and destroy calls on a handle,
  \<open>hasComponent\<close> on a registered component type returns true exactly when the
  intersection of the handle's bitmask with the type's mask is not empty, and on an
  unregistered type it throws the error with the message
  \<open>Component type not registered\<close>.
\<close>

theorem hasComponent_iff_intersection:
  assumes "run cs e w = (rs, e', w')"
  shows "(cls_bitmask (classes w' c) = Some m \<longrightarrow>
            hasComponent c e' w' = Inr (bitmask e' \<inter> m \<noteq> {})) \<and>
         (cls_bitmask (classes w' c) = None \<longrightarrow>
            hasComponent c e' w' = Inl (Error ''Component type not registered''))"
  by (simp add: hasComponent_def bs_and_def bs_isEmpty_def)

theorem hasComponent_iff_intersection_witness:
  "hasComponent 0 (fst (snd scenario_add_add_remove)) (snd (snd scenario_add_add_remove))
     = Inr True \<and>
   hasComponent 1 (fst (snd scenario_add_add_remove)) (snd (snd scenario_add_add_remove))
     = Inr False \<and>
   hasComponent 2 (fst (snd scenario_add_add_remove)) (snd (snd scenario_add_add_remove))
     = Inl (Error ''Component type not registered'')"
proof -
  let ?R = scenario_add_add_remove
  have r: "run [AddComponent 0 [], AddComponent 1 [], RemoveComponent 1] (Entity_new 0) world0
             = (fst ?R, fst (snd ?R), snd (snd ?R))"
    by (simp add: scenario_add_add_remove_def)
  have c0: "cls_bitmask (classes (snd (snd ?R)) 0) = Some {1}"
   and c1: "cls_bitmask (classes (snd (snd ?R)) 1) = Some {2}"
   and c2: "cls_bitmask (classes (snd (snd ?R)) 2) = None"
    by (simp_all add: scenario_add_add_remove_classes world0_def Position_def Velocity_def
          Unregistered_def)
  show ?thesis
    using hasComponent_iff_intersection [OF r, of 0 "{1}"]
          hasComponent_iff_intersection [OF r, of 1 "{2}"]
          hasComponent_iff_intersection [OF r, of 2 "{}"] c0 c1 c2
    by (simp add: scenario_add_add_remove_bitmask)
qed

lemma added0_entity:
  "fst (snd added0) = (Entity_new 0)\<lparr>bitmask := {1}\<rparr>"
  by (simp add: added0_def addComponent_def Entity_new_def world0_def Position_def Let_def
        bs_or_def BitSet_new_def)

lemma added0_classes: "classes (snd (snd added0)) = classes world0"
  by (simp add: added0_def world0_eval)

lemma getValue_index:
  "index e2 = index e3 \<Longrightarrow> getValue c k e2 w = getValue c k e3 w"
  by (simp add: getValue_def split: option.splits FieldData.splits)

section \<open>Adding and removing\<close>

lemma add_then_remove_eval:
  assumes "active e" and "cls_bitmask (classes w c) = Some m"
  shows "fst (add_then_remove c d e w) = Inr () \<and>
         fst (snd (add_then_remove c d e w)) = Inr () \<and>
         bitmask (fst (snd (snd (add_then_remove c d e w)))) = bitmask e - m"
  using assms
  by (auto simp add: add_then_remove_def addComponent_def removeComponent_def Let_def
        bs_or_def bs_andNot_def)

text \<open>
  Claim C3, as stated, fails: adding a registered component type to an active handle
  that already holds it and removing it again leaves the bitmask without the type's bit,
  not at its value before the add.
\<close>

theorem add_then_remove_counterexample:
  "active (fst (snd added0)) \<and>
   bitmask (fst (snd added0)) = {1} \<and>
   cls_bitmask (classes (snd (snd added0)) 0) = Some {1} \<and>
   fst readded = Inr () \<and>
   fst (snd readded) = Inr () \<and>
   bitmask (fst (snd (snd readded))) = {} \<and>
   bitmask (fst (snd (snd readded))) \<noteq> bitmask (fst (snd added0))"
proof -
  have a: "active (fst (snd added0))" and b: "bitmask (fst (snd added0)) = {1}"
    by (simp_all add: added0_entity Entity_new_def)
  have c: "cls_bitmask (classes (snd (snd added0)) 0) = Some {1}"
    by (simp add: added0_classes world0_def Position_def)
  show ?thesis
    using add_then_remove_eval [OF a c, of "[]"] a b c by (simp add: readded_def)
qed

text \<open>
  Claim C3, amended. For an active handle and a registered component type with mask
  \<open>m\<close>, \<open>addComponent\<close> followed by \<open>removeComponent\<close> both succeed and leave the
  bitmask at its value before the add minus \<open>m\<close>; this is the value before the add
  exactly when the handle did not hold any bit of \<open>m\<close> before.
\<close>

theorem add_then_remove_bitmask:
  assumes "active e" and "cls_bitmask (classes w c) = Some m"
    and "add_then_remove c d e w = (r1, r2, e2, w2)"
  shows "r1 = Inr () \<and> r2 = Inr () \<and> bitmask e2 = bitmask e - m \<and>
         (bitmask e2 = bitmask e \<longleftrightarrow> bitmask e \<inter> m = {})"
proof -
  from add_then_remove_eval [OF assms(1,2), of d] assms(3)
  have "r1 = Inr ()" "r2 = Inr ()" "bitmask e2 = bitmask e - m" by simp_all
  then show ?thesis by auto
qed

theorem add_then_remove_bitmask_witness:
  "bitmask (fst (snd (snd added_other))) = bitmask (fst (snd added0)) \<and>
   bitmask (fst (snd (snd readded))) = {}"
proof -
  have a: "active (fst (snd added0))" and b: "bitmask (fst (snd added0)) = {1}"
    by (simp_all add: added0_entity Entity_new_def)
  have c1: "cls_bitmask (classes (snd (snd added0)) 1) = Some {2}"
   and c0: "cls_bitmask (classes (snd (snd added0)) 0) = Some {1}"
    by (simp_all add: added0_classes world0_def Velocity_def Position_def)
  have r1: "add_then_remove 1 [] (fst (snd added0)) (snd (snd added0)) =
          (fst added_other, fst (snd added_other), fst (snd (snd added_other)),
           snd (snd (snd added_other)))"
    by (simp add: added_other_def)
  have r0: "add_then_remove 0 [] (fst (snd added0)) (snd (snd added0)) =
          (fst readded, fst (snd readded), fst (snd (snd readded)), snd (snd (snd readded)))"
    by (simp add: readded_def)
  show ?thesis
    using add_then_remove_bitmask [OF a c1 r1] add_then_remove_bitmask [OF a c0 r0]
    by (simp add: b)
qed

section \<open>Failure leaves everything as it was\<close>

text \<open>
  Claim C4. When \<open>addComponent\<close>, \<open>removeComponent\<close> or \<open>destroy\<close> throws, the handle
  (bitmask, active flag, view cache) and the world (component storage, queries, pool,
  log of collaborator calls) are what they were before the call; the same holds for
  \<open>setValue\<close> and \<open>getVectorView\<close>.
\<close>

theorem failed_call_changes_nothing:
  "(fst (perform c e w) = Inl err \<longrightarrow> snd (perform c e w) = (e, w)) \<and>
   (fst (setValue cc k v e w) = Inl err \<longrightarrow> snd (setValue cc k v e w) = (e, w)) \<and>
   (fst (getVectorView cc k e w) = Inl err \<longrightarrow> snd (getVectorView cc k e w) = (e, w))"
  by (cases c)
     (auto simp add: addComponent_def removeComponent_def destroy_def setValue_def
        getVectorView_def Let_def split: option.splits if_splits FieldData.splits)

theorem failed_call_changes_nothing_witness:
  "perform (AddComponent 2 []) (Entity_new 0) world0
     = (Inl (Error ''Component type not registered''), Entity_new 0, world0) \<and>
   perform (RemoveComponent 2) (Entity_new 0) world0
     = (Inl (Error ''Component not found''), Entity_new 0, world0) \<and>
   perform Destroy (fst (snd destroyed0)) (snd (snd destroyed0))
     = (Inl (Error ''Cannot modify a destroyed entity''), fst (snd destroyed0), snd (snd destroyed0))"
proof -
  have a: "fst (perform (AddComponent 2 []) (Entity_new 0) world0)
             = Inl (Error ''Component type not registered'')"
    by (simp add: world0_eval)
  have b: "fst (perform (RemoveComponent 2) (Entity_new 0) world0) = Inl (Error ''Component not found'')"
    by (simp add: world0_eval)
  have c: "fst (perform Destroy (fst (snd destroyed0)) (snd (snd destroyed0)))
             = Inl (Error ''Cannot modify a destroyed entity'')"
    by (simp add: destroyed0_def world0_eval)
  show ?thesis
    using failed_call_changes_nothing [of "AddComponent 2 []" "Entity_new 0" world0
              "Error ''Component type not registered''" 0 "''x''" 0] a
          failed_call_changes_nothing [of "RemoveComponent 2" "Entity_new 0" world0
              "Error ''Component not found''" 0 "''x''" 0] b
          failed_call_changes_nothing [of Destroy "fst (snd destroyed0)" "snd (snd destroyed0)"
              "Error ''Cannot modify a destroyed entity''" 0 "''x''" 0] c
    by (metis prod.collapse)
qed

section \<open>A destroyed handle\<close>

lemma perform_inactive:
  "\<not> active e \<Longrightarrow> perform c e w = (Inl (Error ''Cannot modify a destroyed entity''), e, w)"
  by (cases c) (simp_all add: addComponent_def removeComponent_def destroy_def
      MODIFY_DESTROYED_ENTITY_def)

lemma run_inactive:
  "\<not> active e \<Longrightarrow>
   run cs e w = (replicate (length cs) (Inl (Error ''Cannot modify a destroyed entity'')), e, w)"
  by (induction cs) (simp_all add: perform_inactive)

text \<open>
  Claim C5. After a successful \<open>destroy\<close>, \<open>hasComponent\<close> is false for every
  registered component type, in whatever world it is asked, and every further
  \<open>addComponent\<close>, \<open>removeComponent\<close> or \<open>destroy\<close> on the handle, alone or in any
  sequence, throws the error with the message \<open>Cannot modify a destroyed entity\<close> and
  changes nothing.
\<close>

theorem destroyed_handle_is_inert:
  assumes "destroy e w = (Inr (), e', w')"
  shows "(\<forall>c m w2. cls_bitmask (classes w2 c) = Some m \<longrightarrow> hasComponent c e' w2 = Inr False) \<and>
         (\<forall>c w2. perform c e' w2 = (Inl (Error ''Cannot modify a destroyed entity''), e', w2)) \<and>
         (\<forall>cs w2. run cs e' w2 =
            (replicate (length cs) (Inl (Error ''Cannot modify a destroyed entity'')), e', w2))"
proof -
  from assms have e': "\<not> active e'" "bitmask e' = {}"
    by (auto simp add: destroy_def Let_def BitSet_new_def split: if_splits)
  show ?thesis
    using e' by (simp add: perform_inactive run_inactive hasComponent_def bs_and_def bs_isEmpty_def)
qed

theorem destroyed_handle_is_inert_witness:
  "hasComponent 0 (fst (snd added0)) (snd (snd added0)) = Inr True \<and>
   fst destroyed_after_add = Inr () \<and>
   hasComponent 0 (fst (snd destroyed_after_add)) (snd (snd destroyed_after_add)) = Inr False \<and>
   fst (run [AddComponent 0 [], RemoveComponent 0, Destroy]
          (fst (snd destroyed_after_add)) (snd (snd destroyed_after_add)))
     = [Inl (Error ''Cannot modify a destroyed entity''),
        Inl (Error ''Cannot modify a destroyed entity''),
        Inl (Error ''Cannot modify a destroyed entity'')]"
proof -
  have d: "destroy (fst (snd added0)) (snd (snd added0))
             = (Inr (), fst (snd destroyed_after_add), snd (snd destroyed_after_add))"
    by (simp add: destroyed_after_add_def added0_entity destroy_def Entity_new_def Let_def)
  have c: "cls_bitmask (classes (snd (snd destroyed_after_add)) 0) = Some {1}"
    by (simp add: destroyed_after_add_def added0_entity destroy_def Entity_new_def Let_def
          added0_classes world0_def Position_def)
  have h: "hasComponent 0 (fst (snd added0)) (snd (snd added0)) = Inr True"
    by (simp add: hasComponent_def added0_entity added0_classes world0_def Position_def
          bs_and_def bs_isEmpty_def)
  have f: "fst destroyed_after_add = Inr ()"
    by (simp add: destroyed_after_add_def added0_entity destroy_def Entity_new_def Let_def)
  show ?thesis
    using destroyed_handle_is_inert [OF d] c h f
    by (simp add: numeral_3_eq_3)
qed

section \<open>Order of the collaborator calls\<close>

text \<open>
  Claim C1, as stated, fails: \<open>destroy\<close> on a fresh active handle calls
  \<open>releaseEntityInstance\<close> first and \<open>updateEntity\<close> second, so the release does not
  come after the notification.
\<close>

theorem destroy_release_order_counterexample:
  "active (Entity_new 0) \<and>
   fst destroyed0 = Inr () \<and>
   new_calls world0 (snd (snd destroyed0)) = [ReleaseEntityInstance 0 {} True, UpdateEntity 0 {} False] \<and>
   \<not> all_before is_update is_release (new_calls world0 (snd (snd destroyed0)))"
  by (simp add: destroyed0_def new_calls_def world0_eval)

text \<open>
  Claim C1, amended. \<open>destroy\<close> on an active handle succeeds and makes exactly two
  collaborator calls, in this order: \<open>releaseEntityInstance\<close>, which finds the handle
  still active with its old bitmask and puts its index on the free list, and then the
  \<open>updateEntity\<close> notification, which finds the handle inactive with an empty bitmask.
  The index is released before the notification, not after it.
\<close>

theorem destroy_release_order:
  assumes "active e"
  shows "fst (destroy e w) = Inr () \<and>
         fst (snd (destroy e w)) = e\<lparr>active := False, bitmask := {}\<rparr> \<and>
         calls (snd (snd (destroy e w))) =
           calls w @ [ReleaseEntityInstance (index e) (bitmask e) True,
                      UpdateEntity (index e) {} False] \<and>
         all_before is_release is_update (new_calls w (snd (snd (destroy e w)))) \<and>
         free_indices (snd (snd (destroy e w))) = index e # free_indices w"
  using assms by (simp add: destroy_def Let_def new_calls_def BitSet_new_def)

theorem destroy_release_order_witness:
  "calls (snd (snd destroyed0)) = [ReleaseEntityInstance 0 {} True, UpdateEntity 0 {} False] \<and>
   free_indices (snd (snd destroyed0)) = [0] \<and>
   active (fst (snd destroyed0)) = False"
proof -
  have a: "active (Entity_new 0)" by (simp add: Entity_new_def)
  show ?thesis
    using destroy_release_order [OF a, of world0]
    by (simp add: destroyed0_def Entity_new_def BitSet_new_def world0_def)
qed

lemma update_query_consistent:
  "(index e \<in> matches (update_query e q)) = query_matches (update_query e q) e"
  by (simp add: update_query_def query_matches_def)

lemma updateEntity_consistent:
  "list_all (\<lambda>q. (index e \<in> matches q) = query_matches q e) (queries (updateEntity e w))"
  by (simp add: list_all_iff update_query_consistent)

lemma perform_succeeds:
  "active e \<Longrightarrow> target_registered c w \<Longrightarrow> fst (perform c e w) = Inr ()"
  by (cases c)
     (auto simp add: target_registered_def addComponent_def removeComponent_def destroy_def
        Let_def)

lemma notification_of_success:
  assumes "perform c e w = (Inr (), e', w')"
  shows "filter is_update (new_calls w w') = [UpdateEntity (index e') (bitmask e') (active e')] \<and>
         calls w' = calls w @ new_calls w w' \<and>
         last (calls w') = UpdateEntity (index e') (bitmask e') (active e') \<and>
         (case c of
            AddComponent cc d \<Rightarrow>
              map_option (\<lambda>m. bitmask e \<union> m) (cls_bitmask (classes w cc)) = Some (bitmask e')
          | RemoveComponent cc \<Rightarrow>
              map_option (\<lambda>m. bitmask e - m) (cls_bitmask (classes w cc)) = Some (bitmask e')
          | Destroy \<Rightarrow> bitmask e' = {}) \<and>
         list_all (\<lambda>q. (index e' \<in> matches q) = query_matches q e') (queries w')"
proof (cases c)
  case (AddComponent cc d)
  with assms obtain m where m: "cls_bitmask (classes w cc) = Some m" "active e"
    and e': "e' = e\<lparr>bitmask := bitmask e \<union> m\<rparr>"
    and w': "w' = updateEntity e' (attachComponentToEntity (index e) cc d w)"
    by (auto simp add: addComponent_def Let_def bs_or_def split: option.splits if_splits)
  show ?thesis
    unfolding w' using updateEntity_consistent [of e']
    by (simp add: AddComponent m e' new_calls_def)
next
  case (RemoveComponent cc)
  with assms obtain m where m: "cls_bitmask (classes w cc) = Some m" "active e"
    and e': "e' = e\<lparr>bitmask := bitmask e - m\<rparr>"
    and w': "w' = updateEntity e' w"
    by (auto simp add: removeComponent_def Let_def bs_andNot_def split: option.splits if_splits)
  show ?thesis
    unfolding w' using updateEntity_consistent [of e']
    by (simp add: RemoveComponent m e' new_calls_def)
next
  case Destroy
  with assms have a: "active e"
    and e': "e' = e\<lparr>active := False, bitmask := {}\<rparr>"
    and w': "w' = updateEntity e' (releaseEntityInstance e w)"
    by (auto simp add: destroy_def Let_def BitSet_new_def split: if_splits)
  show ?thesis
    unfolding w' using updateEntity_consistent [of e']
    by (simp add: Destroy e' new_calls_def)
qed

lemma removed0_entity: "fst (snd removed0) = (Entity_new 0)\<lparr>bitmask := {}\<rparr>"
  by (simp add: removed0_def removeComponent_def added0_entity added0_classes world0_def
        Position_def Entity_new_def Let_def bs_andNot_def)

text \<open>
  Claim C6. \<open>addComponent\<close> and \<open>removeComponent\<close> on an active handle with a registered
  type, and \<open>destroy\<close> on an active handle, succeed; and a successful \<open>addComponent\<close>,
  \<open>removeComponent\<close> or \<open>destroy\<close> logs exactly one \<open>updateEntity\<close> call; it is the last
  collaborator call of the method, and it finds on the handle the bitmask and active
  flag the method leaves, that is the bitmask after the mutation. Every query then holds
  the handle's index exactly when the handle as left by the call matches it.
\<close>

theorem one_notification_after_mutation:
  "(active e \<and> target_registered c w \<longrightarrow> fst (perform c e w) = Inr ()) \<and>
   (perform c e w = (Inr (), e', w') \<longrightarrow>
      filter is_update (new_calls w w') = [UpdateEntity (index e') (bitmask e') (active e')] \<and>
      calls w' = calls w @ new_calls w w' \<and>
      last (calls w') = UpdateEntity (index e') (bitmask e') (active e') \<and>
      (case c of
         AddComponent cc d \<Rightarrow>
           map_option (\<lambda>m. bitmask e \<union> m) (cls_bitmask (classes w cc)) = Some (bitmask e')
       | RemoveComponent cc \<Rightarrow>
           map_option (\<lambda>m. bitmask e - m) (cls_bitmask (classes w cc)) = Some (bitmask e')
       | Destroy \<Rightarrow> bitmask e' = {}) \<and>
      list_all (\<lambda>q. (index e' \<in> matches q) = query_matches q e') (queries w'))"
  using perform_succeeds [of e c w] notification_of_success [of c e w e' w'] by blast

theorem one_notification_after_mutation_witness:
  "fst added0 = Inr () \<and>
   filter is_update (new_calls world0 (snd (snd added0))) = [UpdateEntity 0 {1} True] \<and>
   fst removed0 = Inr () \<and>
   filter is_update (new_calls (snd (snd added0)) (snd (snd removed0)))
     = [UpdateEntity 0 {} True] \<and>
   fst destroyed_after_add = Inr () \<and>
   filter is_update (new_calls (snd (snd added0)) (snd (snd destroyed_after_add)))
     = [UpdateEntity 0 {} False]"
proof -
  let ?e = "fst (snd added0)" and ?w = "snd (snd added0)"
  note T = one_notification_after_mutation
  have a0: "active (Entity_new 0)" and a: "active ?e"
    by (simp_all add: added0_entity Entity_new_def)
  have t0: "target_registered (AddComponent 0 [(''x'', [1]), (''y'', [2])]) world0"
    by (simp add: target_registered_def world0_def Position_def)
  have t1: "target_registered (RemoveComponent 0) ?w"
    by (simp add: target_registered_def added0_classes world0_def Position_def)
  have t2: "target_registered Destroy ?w"
    by (simp add: target_registered_def)
  have s0: "fst (perform (AddComponent 0 [(''x'', [1]), (''y'', [2])]) (Entity_new 0) world0) = Inr ()"
    using T [of "Entity_new 0" "AddComponent 0 [(''x'', [1]), (''y'', [2])]" world0] a0 t0
    by blast
  have s1: "fst (perform (RemoveComponent 0) ?e ?w) = Inr ()"
    using T [of ?e "RemoveComponent 0" ?w] a t1 by blast
  have s2: "fst (perform Destroy ?e ?w) = Inr ()"
    using T [of ?e Destroy ?w] a t2 by blast
  have r0: "perform (AddComponent 0 [(''x'', [1]), (''y'', [2])]) (Entity_new 0) world0
              = (Inr (), fst (snd added0), snd (snd added0))"
    using s0 by (simp add: added0_def prod_eq_iff)
  have r1: "perform (RemoveComponent 0) ?e ?w = (Inr (), fst (snd removed0), snd (snd removed0))"
    using s1 by (simp add: removed0_def prod_eq_iff)
  have r2: "perform Destroy ?e ?w
              = (Inr (), fst (snd destroyed_after_add), snd (snd destroyed_after_add))"
    using s2 by (simp add: destroyed_after_add_def prod_eq_iff)
  have n0: "filter is_update (new_calls world0 (snd (snd added0)))
              = [UpdateEntity (index ?e) (bitmask ?e) (active ?e)]"
    using T [of "Entity_new 0" "AddComponent 0 [(''x'', [1]), (''y'', [2])]" world0
             "fst (snd added0)" "snd (snd added0)"] r0 by blast
  have n1: "filter is_update (new_calls ?w (snd (snd removed0)))
              = [UpdateEntity (index (fst (snd removed0))) (bitmask (fst (snd removed0)))
                   (active (fst (snd removed0)))]"
    using T [of ?e "RemoveComponent 0" ?w "fst (snd removed0)" "snd (snd removed0)"] r1
    by blast
  have n2: "filter is_update (new_calls ?w (snd (snd destroyed_after_add)))
              = [UpdateEntity (index (fst (snd destroyed_after_add)))
                   (bitmask (fst (snd destroyed_after_add)))
                   (active (fst (snd destroyed_after_add)))]"
    using T [of ?e Destroy ?w "fst (snd destroyed_after_add)" "snd (snd destroyed_after_add)"] r2
    by blast
  have d: "fst (snd destroyed_after_add) = (Entity_new 0)\<lparr>active := False\<rparr>"
    by (simp add: destroyed_after_add_def added0_entity destroy_def Entity_new_def Let_def
          BitSet_new_def)
  have c0: "fst added0 = Inr ()" using s0 by (simp add: added0_def)
  have c1: "fst removed0 = Inr ()" using s1 by (simp add: removed0_def)
  have c2: "fst destroyed_after_add = Inr ()" using s2 by (simp add: destroyed_after_add_def)
  have u0: "filter is_update (new_calls world0 (snd (snd added0))) = [UpdateEntity 0 {1} True]"
    using n0 by (simp add: added0_entity Entity_new_def)
  have u1: "filter is_update (new_calls ?w (snd (snd removed0))) = [UpdateEntity 0 {} True]"
    using n1 by (simp add: removed0_entity Entity_new_def)
  have u2: "filter is_update (new_calls ?w (snd (snd destroyed_after_add)))
              = [UpdateEntity 0 {} False]"
    using n2 by (simp add: d Entity_new_def BitSet_new_def)
  show ?thesis
    using c0 c1 c2 u0 u1 u2 by blast
qed

section \<open>Removing a component keeps its stored values\<close>

text \<open>
  Claim C9. \<open>removeComponent\<close> on an active handle with a registered type clears the
  type's bits in the handle's bitmask and logs one \<open>updateEntity\<close> call; the component
  classes, the buffers and everything else of the component store are unchanged, so
  every \<open>getValue\<close> reads afterwards what it read before.
\<close>

theorem removeComponent_frame:
  assumes "active e" and "cls_bitmask (classes w c) = Some m"
  shows "fst (removeComponent c e w) = Inr () \<and>
         fst (snd (removeComponent c e w)) = e\<lparr>bitmask := bitmask e - m\<rparr> \<and>
         classes (snd (snd (removeComponent c e w))) = classes w \<and>
         buffers (snd (snd (removeComponent c e w))) = buffers w \<and>
         arrays (snd (snd (removeComponent c e w))) = arrays w \<and>
         retired (snd (snd (removeComponent c e w))) = retired w \<and>
         next_buffer (snd (snd (removeComponent c e w))) = next_buffer w \<and>
         next_oid (snd (snd (removeComponent c e w))) = next_oid w \<and>
         TypedArrayMap (snd (snd (removeComponent c e w))) = TypedArrayMap w \<and>
         free_indices (snd (snd (removeComponent c e w))) = free_indices w \<and>
         calls (snd (snd (removeComponent c e w))) =
           calls w @ [UpdateEntity (index e) (bitmask e - m) True] \<and>
         (\<forall>c' k e2. getValue c' k e2 (snd (snd (removeComponent c e w))) = getValue c' k e2 w)"
  using assms
  by (simp add: removeComponent_def Let_def bs_andNot_def getValue_def ta_get_def
        array_get_def split: option.splits FieldData.splits)

theorem removeComponent_frame_witness:
  "getValue 0 ''x'' (fst (snd added0)) (snd (snd added0)) = Some 1 \<and>
   getValue 0 ''y'' (fst (snd added0)) (snd (snd added0)) = Some 2 \<and>
   fst removed0 = Inr () \<and>
   bitmask (fst (snd removed0)) = {} \<and>
   getValue 0 ''x'' (fst (snd removed0)) (snd (snd removed0)) = Some 1 \<and>
   getValue 0 ''y'' (fst (snd removed0)) (snd (snd removed0)) = Some 2"
proof -
  have a: "active (fst (snd added0))"
    by (simp add: added0_entity Entity_new_def)
  have c: "cls_bitmask (classes (snd (snd added0)) 0) = Some {1}"
    by (simp add: added0_classes world0_def Position_def)
  have x: "getValue 0 ''x'' (fst (snd added0)) (snd (snd added0)) = Some 1"
    by (simp add: added0_def world0_eval plain_def)
  have y: "getValue 0 ''y'' (fst (snd added0)) (snd (snd added0)) = Some 2"
    by (simp add: added0_def world0_eval plain_def)
  note F = removeComponent_frame [OF a c, folded removed0_def]
  from F have r: "fst removed0 = Inr ()"
    and e: "fst (snd removed0) = (fst (snd added0))\<lparr>bitmask := bitmask (fst (snd added0)) - {1}\<rparr>"
    and g: "\<And>k e2. getValue 0 k e2 (snd (snd removed0)) = getValue 0 k e2 (snd (snd added0))"
    by blast+
  have i: "index (fst (snd removed0)) = index (fst (snd added0))"
    by (simp add: e)
  have b: "bitmask (fst (snd removed0)) = {}"
    by (simp add: e added0_entity)
  show ?thesis
    using r b x y by (simp add: g getValue_index [OF i])
qed

section \<open>Reading back a written value\<close>

text \<open>
  Claim C8, as stated, fails on a field held in a typed array, in two ways. For a handle
  whose index lies beyond the length of the array, \<open>setValue\<close> succeeds without storing
  anything and \<open>getValue\<close> returns \<^verbatim>\<open>undefined\<close>. For a value the element type cannot
  hold, \<open>setValue\<close> stores the converted value and \<open>getValue\<close> returns that: 300 written
  to a signed 8-bit field reads back as 44.
\<close>

theorem set_then_get_counterexample:
  "cls_bitmask (classes world0 0) = Some {1} \<and>
   map_of (schema (classes world0 0)) ''x'' = Some \<lparr>ftype = ''Float64'', default = [0]\<rparr> \<and>
   fst far_set = Inr () \<and>
   getValue 0 ''x'' (fst (snd far_set)) (snd (snd far_set)) = None \<and>
   getValue 0 ''x'' (fst (snd far_set)) (snd (snd far_set)) \<noteq> Some 7 \<and>
   cls_bitmask (classes world1 3) = Some {3} \<and>
   map_of (schema (classes world1 3)) ''hp'' = Some \<lparr>ftype = ''Int8'', default = [0]\<rparr> \<and>
   fst wrapped_set = Inr () \<and>
   getValue 3 ''hp'' (fst (snd wrapped_set)) (snd (snd wrapped_set)) = Some 44 \<and>
   getValue 3 ''hp'' (fst (snd wrapped_set)) (snd (snd wrapped_set)) \<noteq> Some 300"
  by (simp add: far_set_def wrapped_set_def world1_def Health_def Label_def to_int8_def
        world0_eval)

text \<open>
  Claim C8, amended. For a declared field, \<open>setValue\<close> succeeds and leaves the handle as
  it was. When the field is held in a plain array, the value is stored at the handle's
  index and a following \<open>getValue\<close> returns it. When the field is held in a typed array
  and the handle's index lies within it, the value as the element type converts it is
  stored in the handle's slot and nothing else changes, and \<open>getValue\<close> returns the
  converted value: the written value itself when the element type stores it unchanged.
  When the index lies beyond the typed array, the write is ignored, the world is left
  as it was, and \<open>getValue\<close> returns \<^verbatim>\<open>undefined\<close>.
\<close>

theorem set_then_get:
  assumes "data (classes w c) k = Some fd"
  shows "fst (setValue c k v e w) = Inr () \<and>
         fst (snd (setValue c k v e w)) = e \<and>
         snd (snd (setValue c k v e w)) =
           (case fd of
              TypedData ta \<Rightarrow>
                if index e < ta_length ta
                then w\<lparr>buffers := (buffers w)
                        (buffer ta := (buffers w (buffer ta))(offset ta + index e := coerce ta v))\<rparr>
                else w
            | ArrayData a \<Rightarrow> w\<lparr>arrays := (arrays w)(a := (arrays w a)(index e \<mapsto> v))\<rparr>) \<and>
         getValue c k e (snd (snd (setValue c k v e w))) =
           (case fd of
              TypedData ta \<Rightarrow> if index e < ta_length ta then Some (coerce ta v) else None
            | ArrayData a \<Rightarrow> Some v) \<and>
         ((case fd of
             TypedData ta \<Rightarrow> index e < ta_length ta \<and> coerce ta v = v
           | ArrayData a \<Rightarrow> True) \<longrightarrow>
            getValue c k e (snd (snd (setValue c k v e w))) = Some v)"
  using assms
  by (cases fd)
     (simp_all add: setValue_def getValue_def ta_get_def ta_set_def array_get_def array_set_def)

theorem set_then_get_witness:
  "getValue 0 ''x'' (Entity_new 1) (snd (snd near_set)) = Some 7 \<and>
   getValue 0 ''x'' (Entity_new 2) (snd (snd far_set)) = None \<and>
   snd (snd far_set) = world0 \<and>
   getValue 3 ''hp'' (Entity_new 0) (snd (snd wrapped_set)) = Some 44 \<and>
   getValue 4 ''tag'' (Entity_new 2) (snd (snd array_far_set)) = Some 7"
proof -
  have d: "data (classes world0 0) ''x'' =
             Some (TypedData \<lparr>oid = 0, buffer = 0, offset = 0, ta_length = 2, coerce = plain\<rparr>)"
    by (simp add: world0_def Position_def)
  have h: "data (classes world1 3) ''hp'' =
             Some (TypedData \<lparr>oid = 3, buffer = 3, offset = 0, ta_length = 2, coerce = to_int8\<rparr>)"
    by (simp add: world1_def Health_def)
  have t: "data (classes world1 4) ''tag'' = Some (ArrayData 0)"
    by (simp add: world1_def Label_def)
  note near = set_then_get [OF d, of 7 "Entity_new 1", folded near_set_def]
  note far = set_then_get [OF d, of 7 "Entity_new 2", folded far_set_def]
  note wrapped = set_then_get [OF h, of 300 "Entity_new 0", folded wrapped_set_def]
  note array_far = set_then_get [OF t, of 7 "Entity_new 2", folded array_far_set_def]
  have 1: "getValue 0 ''x'' (Entity_new 1) (snd (snd near_set)) = Some 7"
    using near [THEN conjunct2, THEN conjunct2, THEN conjunct2, THEN conjunct1]
    by (simp add: Entity_new_def plain_def)
  have 2: "getValue 0 ''x'' (Entity_new 2) (snd (snd far_set)) = None"
    using far [THEN conjunct2, THEN conjunct2, THEN conjunct2, THEN conjunct1]
    by (simp add: Entity_new_def)
  have 3: "snd (snd far_set) = world0"
    using far [THEN conjunct2, THEN conjunct2, THEN conjunct1]
    by (simp add: Entity_new_def)
  have 4: "getValue 3 ''hp'' (Entity_new 0) (snd (snd wrapped_set)) = Some 44"
    using wrapped [THEN conjunct2, THEN conjunct2, THEN conjunct2, THEN conjunct1]
    by (simp add: Entity_new_def to_int8_def)
  have 5: "getValue 4 ''tag'' (Entity_new 2) (snd (snd array_far_set)) = Some 7"
    using array_far [THEN conjunct2, THEN conjunct2, THEN conjunct2, THEN conjunct1]
    by simp
  show ?thesis
    using 1 2 3 4 5 by blast
qed

section \<open>Vector views\<close>

lemma getVectorView_hit:
  "cachedVectorView c k e = Some v \<Longrightarrow> getVectorView c k e w = (Inr v, e, w)"
  by (simp add: getVectorView_def)

lemma getVectorView_caches:
  assumes "getVectorView c k e w = (Inr v, e1, w1)"
  shows "cachedVectorView c k e1 = Some v"
  using assms
  by (auto simp add: getVectorView_def cachedVectorView_def Let_def
        split: option.splits FieldData.splits)

lemma getVectorView_keeps_cache:
  assumes "cachedVectorView c k e = Some v"
  shows "cachedVectorView c k (fst (snd (getVectorView c' k' e w))) = Some v"
proof (cases "cachedVectorView c' k' e")
  case (Some u)
  then show ?thesis using assms by (simp add: getVectorView_def)
next
  case None
  with assms have ne: "c' \<noteq> c \<or> k' \<noteq> k" by auto
  show ?thesis
    using assms None ne
    by (auto simp add: getVectorView_def cachedVectorView_def Let_def
          split: option.splits FieldData.splits)
qed

lemma handle_after_keeps_cache:
  assumes "cachedVectorView c k e = Some v"
  shows "cachedVectorView c k (handle_after m e w) = Some v"
proof (cases m)
  case (CallView c' k')
  then show ?thesis using getVectorView_keeps_cache [OF assms] by simp
qed (use assms in \<open>auto simp add: cachedVectorView_def addComponent_def removeComponent_def
        setValue_def destroy_def Let_def split: option.splits FieldData.splits\<close>)

lemma later_keeps_cache:
  "cachedVectorView c k e = Some v \<Longrightarrow> cachedVectorView c k (later hs e) = Some v"
  by (induction hs arbitrary: e) (simp_all add: handle_after_keeps_cache)

lemma view_first_result: "fst view_first = Inr first_view"
  by (simp add: view_first_def first_view_def getVectorView_def cachedVectorView_def
        Entity_new_def world0_def Velocity_def subarray_def Let_def)

lemma view_first_world: "snd (snd view_first) = world0\<lparr>next_oid := 4\<rparr>"
  by (simp add: view_first_def getVectorView_def cachedVectorView_def
        Entity_new_def world0_def Velocity_def subarray_def Let_def)

lemma view_first_cache: "cachedVectorView 1 ''v'' (fst (snd view_first)) = Some first_view"
proof -
  have "getVectorView 1 ''v'' (Entity_new 0) world0
          = (Inr first_view, fst (snd view_first), snd (snd view_first))"
    using view_first_result by (simp add: view_first_def prod_eq_iff)
  then show ?thesis by (rule getVectorView_caches)
qed

lemma grown_result: "fst grown = Inr ()"
  by (simp add: grown_def view_first_world addComponent_def Entity_new_def world0_def
        Velocity_def Let_def)

lemma grown_data:
  "data (classes (snd (snd grown)) 1) ''v'' =
     Some (TypedData \<lparr>oid = 4, buffer = 3, offset = 0, ta_length = 6, coerce = plain\<rparr>)"
  by (simp add: grown_def view_first_world world0_eval)

lemma grown_retired: "retired (snd (snd grown)) = {2}"
  by (simp add: grown_def view_first_world world0_eval)

lemma written_after_growth_eval:
  "getValue 1 ''v'' (fst (snd view_first)) (snd (snd written_after_growth)) = Some 5 \<and>
   ta_get first_view 0 (snd (snd written_after_growth)) = Some 0"
proof -
  have i: "index (fst (snd view_first)) = 0"
    by (simp add: view_first_def getVectorView_def cachedVectorView_def
          Entity_new_def world0_def Velocity_def subarray_def Let_def)
  have b: "buffers (snd (snd grown)) 2 0 = 0"
    by (simp add: grown_def view_first_world world0_eval)
  show ?thesis
    using grown_data i b
    by (simp add: written_after_growth_def setValue_def getValue_def ta_set_def
          ta_get_def first_view_def plain_def)
qed

text \<open>
  Claim C2, as stated, fails: a handle takes a view, the buffer then grows (the class's
  typed array is replaced by one on a fresh buffer and the old buffer is retired), and
  the next \<open>getVectorView\<close> on the handle returns the very same view instance, over the
  retired buffer. A value written to the slot afterwards is read by \<open>getValue\<close> and not
  seen through the returned view.
\<close>

theorem vector_view_after_growth_counterexample:
  "fst view_first = Inr first_view \<and>
   fst grown = Inr () \<and>
   data (classes (snd (snd grown)) 1) ''v'' =
     Some (TypedData \<lparr>oid = 4, buffer = 3, offset = 0, ta_length = 6, coerce = plain\<rparr>) \<and>
   retired (snd (snd grown)) = {2} \<and>
   fst view_again = Inr first_view \<and>
   oid first_view = 3 \<and> buffer first_view = 2 \<and>
   getValue 1 ''v'' (fst (snd view_first)) (snd (snd written_after_growth)) = Some 5 \<and>
   ta_get first_view 0 (snd (snd written_after_growth)) = Some 0"
proof -
  have a: "fst view_again = Inr first_view"
    unfolding view_again_def by (simp only: getVectorView_hit [OF view_first_cache] fst_conv)
  show ?thesis
    using view_first_result grown_result grown_data grown_retired a written_after_growth_eval
    by (simp add: first_view_def)
qed

text \<open>
  Claim C2, amended. A call that finds a cached view returns that instance and changes
  nothing, in whatever state the store is. No method of the handle ever removes or
  replaces a cached view; so once a call has returned a view, after any history of
  calls on the handle, made in any worlds, a \<open>getVectorView\<close> for the same type and field
  returns the same instance, also after a growth of the backing buffer, when the view is
  over the old buffer. Only a call that finds no cached view makes a fresh view, over the
  buffer the class holds at that moment.
\<close>

theorem vector_view_cache:
  "(cachedVectorView c k e = Some v \<longrightarrow> getVectorView c k e w = (Inr v, e, w)) \<and>
   (getVectorView c k e w = (Inr v, e1, w1) \<longrightarrow>
      (\<forall>hs w2. getVectorView c k (later hs e1) w2 = (Inr v, later hs e1, w2))) \<and>
   (cachedVectorView c k e = None \<and> map_of (schema (classes w c)) k = Some fs \<and>
    TypedArrayMap w (ftype fs) = Some len \<and> data (classes w c) k = Some (TypedData ta) \<longrightarrow>
      fst (getVectorView c k e w)
        = Inr (subarray ta (index e * len) (index e * len + len) (next_oid w)) \<and>
      buffer (subarray ta (index e * len) (index e * len + len) (next_oid w)) = buffer ta \<and>
      oid (subarray ta (index e * len) (index e * len + len) (next_oid w)) = next_oid w)"
proof (intro conjI impI allI)
  assume "cachedVectorView c k e = Some v"
  then show "getVectorView c k e w = (Inr v, e, w)" by (rule getVectorView_hit)
next
  fix hs w2
  assume "getVectorView c k e w = (Inr v, e1, w1)"
  then have "cachedVectorView c k e1 = Some v" by (rule getVectorView_caches)
  then have "cachedVectorView c k (later hs e1) = Some v" by (rule later_keeps_cache)
  then show "getVectorView c k (later hs e1) w2 = (Inr v, later hs e1, w2)"
    by (rule getVectorView_hit)
next
  assume a: "cachedVectorView c k e = None \<and> map_of (schema (classes w c)) k = Some fs \<and>
    TypedArrayMap w (ftype fs) = Some len \<and> data (classes w c) k = Some (TypedData ta)"
  then show "fst (getVectorView c k e w)
        = Inr (subarray ta (index e * len) (index e * len + len) (next_oid w))"
    by (simp add: getVectorView_def Let_def)
  show "buffer (subarray ta (index e * len) (index e * len + len) (next_oid w)) = buffer ta"
    by (simp add: subarray_def Let_def)
  show "oid (subarray ta (index e * len) (index e * len + len) (next_oid w)) = next_oid w"
    by (simp add: subarray_def Let_def)
qed

theorem vector_view_cache_witness:
  "view_again = (Inr first_view, fst (snd view_first), snd (snd grown)) \<and>
   fst (getVectorView 1 ''v'' (later own_calls (fst (snd view_first))) (snd (snd grown)))
     = Inr first_view \<and>
   active (later own_calls (fst (snd view_first))) = False"
proof -
  have r: "getVectorView 1 ''v'' (Entity_new 0) world0
             = (Inr first_view, fst (snd view_first), snd (snd view_first))"
    using view_first_result by (simp add: view_first_def prod_eq_iff)
  from vector_view_cache [of 1 "''v''" "Entity_new 0" first_view world0
         "fst (snd view_first)" "snd (snd view_first)"] r
  have l: "\<forall>hs w2. getVectorView 1 ''v'' (later hs (fst (snd view_first))) w2
               = (Inr first_view, later hs (fst (snd view_first)), w2)"
    by blast
  have 1: "view_again = (Inr first_view, fst (snd view_first), snd (snd grown))"
    using l [rule_format, of "[]"] by (simp add: view_again_def)
  have 2: "fst (getVectorView 1 ''v'' (later own_calls (fst (snd view_first))) (snd (snd grown)))
             = Inr first_view"
    using l [rule_format, of own_calls] by simp
  have 3: "active (later own_calls (fst (snd view_first))) = False"
    by (simp add: own_calls_def destroy_def removeComponent_def setValue_def addComponent_def
          Let_def split: option.splits FieldData.splits if_splits prod.splits)
  show ?thesis using 1 2 3 by simp
qed

section \<open>Reads and writes through a destroyed handle\<close>

lemma destroyed_after_add_entity:
  "fst (snd destroyed_after_add) = (Entity_new 0)\<lparr>active := False\<rparr>"
  by (simp add: destroyed_after_add_def added0_entity destroy_def Entity_new_def Let_def
        BitSet_new_def)

lemma destroyed_after_add_store:
  "classes (snd (snd destroyed_after_add)) = classes world0 \<and>
   buffers (snd (snd destroyed_after_add)) = buffers (snd (snd added0))"
  by (simp add: destroyed_after_add_def added0_entity destroy_def Entity_new_def Let_def
        added0_classes)

text \<open>
  Claim C10. \<open>hasComponent\<close>, \<open>getValue\<close>, \<open>setValue\<close> and \<open>getVectorView\<close> do not look at
  the active flag: with the flag set either way they return the same result and make
  the same changes. The handle \<open>destroy\<close> leaves differs from an active handle with an
  empty bitmask in the flag only, so the four behave on it as on that handle. They read
  and write the slot of the handle's index, so any other handle of the same index reads
  what a destroyed handle wrote. No method ever throws the error with the message
  \<open>Cannot access a destroyed entity\<close>.
\<close>

theorem reads_ignore_active:
  "hasComponent c (e\<lparr>active := a\<rparr>) w = hasComponent c e w \<and>
   getValue c k (e\<lparr>active := a\<rparr>) w = getValue c k e w \<and>
   setValue c k v (e\<lparr>active := a\<rparr>) w =
     (case setValue c k v e w of (r, e1, w1) \<Rightarrow> (r, e1\<lparr>active := a\<rparr>, w1)) \<and>
   getVectorView c k (e\<lparr>active := a\<rparr>) w =
     (case getVectorView c k e w of (r, e1, w1) \<Rightarrow> (r, e1\<lparr>active := a\<rparr>, w1)) \<and>
   (fst (destroy e w) = Inr () \<longrightarrow>
      fst (snd (destroy e w)) = e\<lparr>active := False, bitmask := {}\<rparr>) \<and>
   (index e2 = index e \<longrightarrow>
      getValue c k e2 w = getValue c k e w \<and>
      snd (snd (setValue c k v e2 w)) = snd (snd (setValue c k v e w))) \<and>
   hasComponent c e w \<noteq> Inl (Error ACCESS_DESTROYED_ENTITY) \<and>
   fst (setValue c k v e w) \<noteq> Inl (Error ACCESS_DESTROYED_ENTITY) \<and>
   fst (getVectorView c k e w) \<noteq> Inl (Error ACCESS_DESTROYED_ENTITY) \<and>
   fst (perform call e w) \<noteq> Inl (Error ACCESS_DESTROYED_ENTITY)"
proof (intro conjI impI)
  show "hasComponent c (e\<lparr>active := a\<rparr>) w = hasComponent c e w"
    by (simp add: hasComponent_def split: option.splits FieldData.splits)
  show "getValue c k (e\<lparr>active := a\<rparr>) w = getValue c k e w"
    by (simp add: getValue_def split: option.splits FieldData.splits)
  show "setValue c k v (e\<lparr>active := a\<rparr>) w =
     (case setValue c k v e w of (r, e1, w1) \<Rightarrow> (r, e1\<lparr>active := a\<rparr>, w1))"
    by (simp add: setValue_def split: option.splits FieldData.splits)
  show "getVectorView c k (e\<lparr>active := a\<rparr>) w =
     (case getVectorView c k e w of (r, e1, w1) \<Rightarrow> (r, e1\<lparr>active := a\<rparr>, w1))"
    by (simp add: getVectorView_def cachedVectorView_def Let_def split: option.splits FieldData.splits)
  show "fst (snd (destroy e w)) = e\<lparr>active := False, bitmask := {}\<rparr>"
    if "fst (destroy e w) = Inr ()"
    using that by (simp add: destroy_def Let_def BitSet_new_def split: if_splits)
  show "getValue c k e2 w = getValue c k e w" if "index e2 = index e"
    using that by (rule getValue_index)
  show "snd (snd (setValue c k v e2 w)) = snd (snd (setValue c k v e w))" if "index e2 = index e"
    using that by (simp add: setValue_def split: option.splits FieldData.splits)
  show "hasComponent c e w \<noteq> Inl (Error ACCESS_DESTROYED_ENTITY)"
    by (simp add: hasComponent_def ACCESS_DESTROYED_ENTITY_def split: option.splits FieldData.splits)
  show "fst (setValue c k v e w) \<noteq> Inl (Error ACCESS_DESTROYED_ENTITY)"
    by (simp add: setValue_def split: option.splits FieldData.splits)
  show "fst (getVectorView c k e w) \<noteq> Inl (Error ACCESS_DESTROYED_ENTITY)"
    by (simp add: getVectorView_def Let_def split: option.splits FieldData.splits)
  show "fst (perform call e w) \<noteq> Inl (Error ACCESS_DESTROYED_ENTITY)"
    by (cases call)
       (simp_all add: addComponent_def removeComponent_def destroy_def Let_def
          ACCESS_DESTROYED_ENTITY_def MODIFY_DESTROYED_ENTITY_def split: option.splits FieldData.splits)
qed

theorem reads_ignore_active_witness:
  "active (fst (snd destroyed_after_add)) = False \<and>
   hasComponent 0 (fst (snd destroyed_after_add)) (snd (snd destroyed_after_add)) = Inr False \<and>
   getValue 0 ''x'' (fst (snd destroyed_after_add)) (snd (snd destroyed_after_add)) = Some 1 \<and>
   fst written_by_destroyed = Inr () \<and>
   getValue 0 ''x'' (Entity_new 0) (snd (snd written_by_destroyed)) = Some 9"
proof -
  let ?d = "fst (snd destroyed_after_add)"
  let ?W = "snd (snd destroyed_after_add)"
  have d: "data (classes ?W 0) ''x''
             = Some (TypedData \<lparr>oid = 0, buffer = 0, offset = 0, ta_length = 2, coerce = plain\<rparr>)"
    by (simp add: destroyed_after_add_store world0_def Position_def)
  have m: "cls_bitmask (classes ?W 0) = Some {1}"
    by (simp add: destroyed_after_add_store world0_def Position_def)
  have i: "index (Entity_new 0) = index ?d"
    by (simp add: destroyed_after_add_entity)
  have b: "buffers ?W 0 0 = 1"
    by (simp add: destroyed_after_add_store added0_def world0_eval)
  have a: "active ?d = False"
    by (simp add: destroyed_after_add_entity)
  have h: "hasComponent 0 (?d\<lparr>active := True\<rparr>) ?W = Inr False"
    using m by (simp add: destroyed_after_add_entity hasComponent_def Entity_new_def
                  BitSet_new_def bs_and_def bs_isEmpty_def)
  have g: "getValue 0 ''x'' ?d ?W = Some 1"
    using d b by (simp add: getValue_def ta_get_def destroyed_after_add_entity Entity_new_def)
  have s: "fst written_by_destroyed = Inr ()"
    using d by (simp add: written_by_destroyed_def setValue_def)
  have g9: "getValue 0 ''x'' ?d (snd (snd written_by_destroyed)) = Some 9"
    using d by (simp add: written_by_destroyed_def setValue_def getValue_def ta_get_def
                  ta_set_def destroyed_after_add_entity Entity_new_def plain_def)
  from reads_ignore_active [where c = 0 and e = ?d and a = True and w = ?W and k = "''x''"
         and v = 9 and ?e2.0 = "Entity_new 0" and call = Destroy] h
  have h': "hasComponent 0 ?d ?W = Inr False" by simp
  from reads_ignore_active [where c = 0 and e = ?d and a = True
         and w = "snd (snd written_by_destroyed)" and k = "''x''"
         and v = 9 and ?e2.0 = "Entity_new 0" and call = Destroy] i g9
  have g': "getValue 0 ''x'' (Entity_new 0) (snd (snd written_by_destroyed)) = Some 9"
    by simp
  show ?thesis using a h' g s g' by simp
qed

end
